theory Spec2Isabelle
  imports
    Main
    "HOL-Library.AList"
    "HOL-Library.Char_ord"
    "HOL-Library.List_Lexorder"
    "HOL-Library.Product_Lexorder"
begin

section \<open>Version compatibility probe: \<^verbatim>\<open>python/cudf/cudf/core/_compat.py\<close>\<close>

text \<open>
  The module under verification is seven statements long:
  \<^verbatim>\<open>
  from packaging import version
  import pandas as pd

  PANDAS_CURRENT_SUPPORTED_VERSION = version.parse("2.2.3")
  PANDAS_VERSION = version.parse(pd.__version__)

  PANDAS_GE_210 = PANDAS_VERSION >= version.parse("2.1.0")
  PANDAS_GE_220 = PANDAS_VERSION >= version.parse("2.2.0")
  PANDAS_LT_300 = PANDAS_VERSION < version.parse("3.0.0")
  \<close>
  Everything it computes goes through \<^verbatim>\<open>packaging.version\<close>: \<^verbatim>\<open>parse\<close>, and the
  comparison operators of \<^verbatim>\<open>Version\<close>. That library is a third-party dependency and
  is not part of the repository's sources, so the first half of this theory models it
  (sections marked so); the second half is the module itself, statement by statement.

  Strings are \<^typ>\<open>string\<close>, whose characters are the code points 0 to 255. Python
  strings also hold code points above 255; none of them can occur in a string the
  version pattern accepts other than as surrounding white space and as the case-folding
  partners of \<^verbatim>\<open>s\<close>, \<^verbatim>\<open>k\<close> and \<^verbatim>\<open>i\<close>, and they are outside this model.
  Python's integers are unbounded and are \<^typ>\<open>nat\<close> here (every number of a version is
  read from a run of decimal digits); the interpreter's configurable cap on the number
  of digits \<^verbatim>\<open>int()\<close> converts is not modelled.
\<close>

section \<open>The regular expressions of Python's \<^verbatim>\<open>re\<close>, as far as the version pattern uses them\<close>

text \<open>
  Modelled from the spec: the spec's "underlying version-parsing facility" is
  \<^verbatim>\<open>packaging.version.parse\<close>, which matches the version string against a regular
  expression compiled with \<^verbatim>\<open>re.VERBOSE | re.IGNORECASE\<close>. Neither \<^verbatim>\<open>packaging\<close> nor
  \<^verbatim>\<open>re\<close> is under the repository's sources. A pattern is a value of \<open>regex\<close>; \<open>Lit\<close> is
  a run of literal characters, \<open>Class\<close> a bracket expression given by its ranges,
  \<open>Space\<close> is \<^verbatim>\<open>\s\<close>, \<open>Group\<close> a named group, \<open>Bol\<close> and \<open>Eol\<close> are \<^verbatim>\<open>^\<close> and \<^verbatim>\<open>$\<close>.
\<close>

datatype regex =
    Eps
  | Lit string
  | Class "(char \<times> char) list"
  | Space
  | Seq regex regex
  | Alt regex regex
  | Opt regex
  | Star regex
  | Plus regex
  | Group string regex
  | Bol
  | Eol

text \<open>
  Modelled from the spec: the state of a match in progress (part of \<^verbatim>\<open>re\<close>, not under
  the sources): the index reached, the text still to be read, and what the named groups
  have captured so far.
\<close>

record mstate =
  pos :: nat
  rest :: string
  groups :: "(string \<times> string) list"

text \<open>
  Modelled from the spec: \<^verbatim>\<open>str.lower\<close> and \<^verbatim>\<open>str.upper\<close> on one character (Python
  built-ins). Only the letters A to Z and a to z change; the other characters below 256
  that have a case are no partner of a character of the version pattern.
\<close>

definition lower :: "char \<Rightarrow> char" where
  "lower c = (if CHR ''A'' \<le> c \<and> c \<le> CHR ''Z'' then char_of (of_char c + (32::nat)) else c)"

definition upper :: "char \<Rightarrow> char" where
  "upper c = (if CHR ''a'' \<le> c \<and> c \<le> CHR ''z'' then char_of (of_char c - (32::nat)) else c)"

text \<open>
  Modelled from the spec: the characters \<^verbatim>\<open>\s\<close> matches in a \<^verbatim>\<open>str\<close> pattern (part of
  \<^verbatim>\<open>re\<close>), among the code points below 256: tab to carriage return, the four
  separators 28 to 31, the space, NEL (133) and the no-break space (160).
\<close>

definition isspace :: "char \<Rightarrow> bool" where
  "isspace c =
     (let n = (of_char c :: nat)
      in (9 \<le> n \<and> n \<le> 13) \<or> (28 \<le> n \<and> n \<le> 32) \<or> n = 133 \<or> n = 160)"

text \<open>
  Modelled from the spec: membership in a bracket expression under \<^verbatim>\<open>re.IGNORECASE\<close>
  (part of \<^verbatim>\<open>re\<close>): the character, its lower case or its upper case lies in a range.
\<close>

definition in_ranges :: "(char \<times> char) list \<Rightarrow> char \<Rightarrow> bool" where
  "in_ranges rs c = list_ex (\<lambda>(lo, hi). lo \<le> c \<and> c \<le> hi) rs"

definition in_class :: "(char \<times> char) list \<Rightarrow> char \<Rightarrow> bool" where
  "in_class rs c = (in_ranges rs c \<or> in_ranges rs (lower c) \<or> in_ranges rs (upper c))"

text \<open>
  Modelled from the spec: reading one character that satisfies a test, and reading a
  literal run of characters without regard to case (part of \<^verbatim>\<open>re\<close>). A matcher returns
  the states it can reach in the order in which the backtracking engine tries them; no
  state means no match.
\<close>

definition step_char :: "(char \<Rightarrow> bool) \<Rightarrow> mstate \<Rightarrow> mstate list" where
  "step_char P st =
     (case rest st of
        [] \<Rightarrow> []
      | c # cs \<Rightarrow> if P c then [st\<lparr>pos := Suc (pos st), rest := cs\<rparr>] else [])"

primrec match_lit :: "string \<Rightarrow> mstate \<Rightarrow> mstate list" where
  "match_lit [] st = [st]"
| "match_lit (c # cs) st = List.bind (step_char (\<lambda>x. lower x = lower c) st) (match_lit cs)"

text \<open>
  Modelled from the spec: the greedy repetition \<^verbatim>\<open>r*\<close> (part of \<^verbatim>\<open>re\<close>): one more round
  of \<open>r\<close> is tried before stopping. The second argument bounds the number of rounds; it
  is the length of the remaining text where \<open>star_iter\<close> is used, and every repeated
  part of the version pattern reads at least one character, so the bound is never what
  stops a repetition.
\<close>

primrec star_iter :: "(mstate \<Rightarrow> mstate list) \<Rightarrow> nat \<Rightarrow> mstate \<Rightarrow> mstate list" where
  "star_iter f 0 st = [st]"
| "star_iter f (Suc n) st = List.bind (f st) (star_iter f n) @ [st]"

text \<open>
  Modelled from the spec: the backtracking matcher of \<^verbatim>\<open>re\<close>. Alternatives are tried
  from left to right, \<^verbatim>\<open>?\<close>, \<^verbatim>\<open>*\<close> and \<^verbatim>\<open>+\<close> are greedy, a group records the text read
  inside it, \<^verbatim>\<open>^\<close> holds at index 0 only and \<^verbatim>\<open>$\<close> at the end of the text or before a
  final newline (no \<^verbatim>\<open>re.MULTILINE\<close>).
\<close>

primrec rmatch :: "regex \<Rightarrow> mstate \<Rightarrow> mstate list" where
  "rmatch Eps = (\<lambda>st. [st])"
| "rmatch (Lit s) = match_lit s"
| "rmatch (Class rs) = step_char (in_class rs)"
| "rmatch Space = step_char isspace"
| "rmatch (Seq r1 r2) = (\<lambda>st. List.bind (rmatch r1 st) (rmatch r2))"
| "rmatch (Alt r1 r2) = (\<lambda>st. rmatch r1 st @ rmatch r2 st)"
| "rmatch (Opt r) = (\<lambda>st. rmatch r st @ [st])"
| "rmatch (Star r) = (\<lambda>st. star_iter (rmatch r) (length (rest st)) st)"
| "rmatch (Plus r) =
     (\<lambda>st. List.bind (rmatch r st) (\<lambda>st'. star_iter (rmatch r) (length (rest st')) st'))"
| "rmatch (Group name r) =
     (\<lambda>st. map (\<lambda>st'. st'\<lparr>groups :=
                     AList.update name (take (pos st' - pos st) (rest st)) (groups st')\<rparr>)
               (rmatch r st))"
| "rmatch Bol = (\<lambda>st. if pos st = 0 then [st] else [])"
| "rmatch Eol = (\<lambda>st. if rest st = [] \<or> rest st = [CHR 0x0A] then [st] else [])"

text \<open>
  Modelled from the spec: \<^verbatim>\<open>Pattern.search\<close> (part of \<^verbatim>\<open>re\<close>): the first match found,
  trying the start indices from 0 on; the result is the captures of the match object,
  and \<open>group\<close> is \<^verbatim>\<open>Match.group\<close>, \<open>None\<close> for a group that took no part in the match.
\<close>

definition search :: "regex \<Rightarrow> string \<Rightarrow> (string \<times> string) list option" where
  "search r s =
     (case List.bind [0..<Suc (length s)]
             (\<lambda>i. rmatch r \<lparr>pos = i, rest = drop i s, groups = []\<rparr>) of
        [] \<Rightarrow> None
      | st # _ \<Rightarrow> Some (groups st))"

definition group :: "(string \<times> string) list \<Rightarrow> string \<Rightarrow> string option" where
  "group m name = map_of m name"

text \<open>
  Modelled from the spec: a pattern written as several parts in a row, and as several
  alternatives separated by \<^verbatim>\<open>|\<close> (pattern syntax of \<^verbatim>\<open>re\<close>), nested to the right.
\<close>

fun seqs :: "regex list \<Rightarrow> regex" where
  "seqs [] = Eps"
| "seqs [r] = r"
| "seqs (r # rs) = Seq r (seqs rs)"

fun alts :: "regex list \<Rightarrow> regex" where
  "alts [] = Eps"
| "alts [r] = r"
| "alts (r # rs) = Alt r (alts rs)"

section \<open>\<^verbatim>\<open>packaging.version\<close>\<close>

text \<open>
  Modelled from the spec: \<^verbatim>\<open>VERSION_PATTERN\<close> of \<^verbatim>\<open>packaging.version\<close> (release 24.1; not
  under the sources), sub-pattern by sub-pattern; \<open>digit\<close> is \<^verbatim>\<open>[0-9]\<close>, \<open>alnum\<close> is
  \<^verbatim>\<open>[a-z0-9]\<close> and \<open>sep\<close> is \<^verbatim>\<open>[-_\.]\<close>:
  \<^verbatim>\<open>
    v?
    (?:
        (?:(?P<epoch>[0-9]+)!)?                           # epoch
        (?P<release>[0-9]+(?:\.[0-9]+)*)                  # release segment
        (?P<pre>                                          # pre-release
            [-_\.]?
            (?P<pre_l>alpha|a|beta|b|preview|pre|c|rc)
            [-_\.]?
            (?P<pre_n>[0-9]+)?
        )?
        (?P<post>                                         # post release
            (?:-(?P<post_n1>[0-9]+))
            |
            (?:
                [-_\.]?
                (?P<post_l>post|rev|r)
                [-_\.]?
                (?P<post_n2>[0-9]+)?
            )
        )?
        (?P<dev>                                          # dev release
            [-_\.]?
            (?P<dev_l>dev)
            [-_\.]?
            (?P<dev_n>[0-9]+)?
        )?
    )
    (?:\+(?P<local>[a-z0-9]+(?:[-_\.][a-z0-9]+)*))?       # local version
  \<close>
\<close>

definition digit :: regex where
  "digit = Class [(CHR ''0'', CHR ''9'')]"

definition alnum :: regex where
  "alnum = Class [(CHR ''a'', CHR ''z''), (CHR ''0'', CHR ''9'')]"

definition sep :: regex where
  "sep = Class [(CHR ''-'', CHR ''-''), (CHR ''_'', CHR ''_''), (CHR ''.'', CHR ''.'')]"

definition VERSION_PATTERN :: regex where
  "VERSION_PATTERN =
     seqs [
       Opt (Lit ''v''),
       seqs [
         Opt (seqs [Group ''epoch'' (Plus digit), Lit ''!'']),
         Group ''release'' (seqs [Plus digit, Star (seqs [Lit ''.'', Plus digit])]),
         Opt (Group ''pre'' (seqs [
           Opt sep,
           Group ''pre_l'' (alts [Lit ''alpha'', Lit ''a'', Lit ''beta'', Lit ''b'',
                                 Lit ''preview'', Lit ''pre'', Lit ''c'', Lit ''rc'']),
           Opt sep,
           Opt (Group ''pre_n'' (Plus digit))])),
         Opt (Group ''post'' (Alt
           (seqs [Lit ''-'', Group ''post_n1'' (Plus digit)])
           (seqs [
             Opt sep,
             Group ''post_l'' (alts [Lit ''post'', Lit ''rev'', Lit ''r'']),
             Opt sep,
             Opt (Group ''post_n2'' (Plus digit))]))),
         Opt (Group ''dev'' (seqs [
           Opt sep,
           Group ''dev_l'' (Lit ''dev''),
           Opt sep,
           Opt (Group ''dev_n'' (Plus digit))]))],
       Opt (seqs [Lit ''+'',
                  Group ''local'' (seqs [Plus alnum, Star (seqs [sep, Plus alnum])])])]"

text \<open>
  Modelled from the spec: \<^verbatim>\<open>Version._regex\<close> of \<^verbatim>\<open>packaging.version\<close> (not under the
  sources): \<^verbatim>\<open>re.compile(r"^\s*" + VERSION_PATTERN + r"\s*$", re.VERBOSE | re.IGNORECASE)\<close>.
\<close>

definition Version_regex :: regex where
  "Version_regex = seqs [Bol, Star Space, VERSION_PATTERN, Star Space, Eol]"

text \<open>
  Modelled from the spec: the exception \<^verbatim>\<open>InvalidVersion\<close> of \<^verbatim>\<open>packaging.version\<close> (not
  under the sources), which carries the rejected string in its message, and the
  \<^verbatim>\<open>AttributeError\<close> that \<^verbatim>\<open>match.group("release").split\<close> would raise on \<^verbatim>\<open>None\<close>.
\<close>

datatype error = InvalidVersion string | AttributeError

text \<open>
  Modelled from the spec: the named tuple \<^verbatim>\<open>_Version\<close> that a \<^verbatim>\<open>Version\<close> object of
  \<^verbatim>\<open>packaging.version\<close> holds (not under the sources), with its fields in their order.
  A part of the local segment is an \<^verbatim>\<open>int\<close> or a \<^verbatim>\<open>str\<close>.
\<close>

datatype local_part = LocalInt nat | LocalStr string

record Version =
  epoch :: nat
  release :: "nat list"
  dev :: "(string \<times> nat) option"
  pre :: "(string \<times> nat) option"
  post :: "(string \<times> nat) option"
  local_segment :: "local_part list option"

text \<open>
  Modelled from the spec: Python built-ins that \<^verbatim>\<open>packaging.version\<close> applies to the
  captured groups: \<^verbatim>\<open>int\<close> on a run of decimal digits, \<^verbatim>\<open>str.isdigit\<close> (on the characters
  a local segment can hold), \<^verbatim>\<open>str.lower\<close>, and splitting at every separator character
  (\<^verbatim>\<open>str.split(".")\<close> and \<^verbatim>\<open>re.split\<close> with a one-character pattern), which keeps empty
  pieces.
\<close>

definition py_int :: "string \<Rightarrow> nat" where
  "py_int s = foldl (\<lambda>n c. 10 * n + (of_char c - 48)) 0 s"

definition isdigit :: "string \<Rightarrow> bool" where
  "isdigit s = (s \<noteq> [] \<and> list_all (\<lambda>c. CHR ''0'' \<le> c \<and> c \<le> CHR ''9'') s)"

definition str_lower :: "string \<Rightarrow> string" where
  "str_lower s = map lower s"

fun split_on :: "(char \<Rightarrow> bool) \<Rightarrow> string \<Rightarrow> string list" where
  "split_on P [] = [[]]"
| "split_on P (c # cs) =
     (if P c then [] # split_on P cs
      else (case split_on P cs of
              [] \<Rightarrow> [[c]]
            | x # xs \<Rightarrow> (c # x) # xs))"

text \<open>
  Modelled from the spec: \<^verbatim>\<open>_parse_letter_version(letter, number)\<close> of
  \<^verbatim>\<open>packaging.version\<close> (not under the sources). A group that is \<^verbatim>\<open>None\<close> or empty is
  false in Python; a missing number after a letter counts as 0; the spellings of the
  letter are normalised.
  \<^verbatim>\<open>
    if letter:
        if number is None: number = 0
        letter = letter.lower()
        if letter == "alpha": letter = "a"
        elif letter == "beta": letter = "b"
        elif letter in ["c", "pre", "preview"]: letter = "rc"
        elif letter in ["rev", "r"]: letter = "post"
        return letter, int(number)
    if not letter and number:
        letter = "post"
        return letter, int(number)
    return None
  \<close>
\<close>

definition truthy :: "string option \<Rightarrow> bool" where
  "truthy x = (case x of None \<Rightarrow> False | Some s \<Rightarrow> s \<noteq> [])"

definition normalize_letter :: "string \<Rightarrow> string" where
  "normalize_letter letter =
     (if letter = ''alpha'' then ''a''
      else if letter = ''beta'' then ''b''
      else if letter \<in> set [''c'', ''pre'', ''preview''] then ''rc''
      else if letter \<in> set [''rev'', ''r''] then ''post''
      else letter)"

definition parse_letter_version ::
  "string option \<Rightarrow> string option \<Rightarrow> (string \<times> nat) option" where
  "parse_letter_version letter number =
     (if truthy letter then
        Some (normalize_letter (str_lower (case letter of Some l \<Rightarrow> l | None \<Rightarrow> [])),
              (case number of None \<Rightarrow> 0 | Some n \<Rightarrow> py_int n))
      else if truthy number then
        Some (''post'', (case number of None \<Rightarrow> 0 | Some n \<Rightarrow> py_int n))
      else None)"

text \<open>
  Modelled from the spec: \<^verbatim>\<open>_parse_local_version(local)\<close> of \<^verbatim>\<open>packaging.version\<close> (not
  under the sources), with \<^verbatim>\<open>_local_version_separators = re.compile(r"[\._-]")\<close>:
  \<^verbatim>\<open>
    if local is not None:
        return tuple(part.lower() if not part.isdigit() else int(part)
                     for part in _local_version_separators.split(local))
    return None
  \<close>
\<close>

definition local_version_separators :: "char \<Rightarrow> bool" where
  "local_version_separators c = (c = CHR ''.'' \<or> c = CHR ''_'' \<or> c = CHR ''-'')"

definition parse_local_version :: "string option \<Rightarrow> local_part list option" where
  "parse_local_version local =
     (case local of
        None \<Rightarrow> None
      | Some l \<Rightarrow>
          Some (map (\<lambda>part. if \<not> isdigit part then LocalStr (str_lower part)
                              else LocalInt (py_int part))
                    (split_on local_version_separators l)))"

text \<open>
  Modelled from the spec: \<^verbatim>\<open>Version.__init__\<close> of \<^verbatim>\<open>packaging.version\<close> (not under the
  sources), and \<^verbatim>\<open>parse\<close>, which only calls it:
  \<^verbatim>\<open>
    match = self._regex.search(version)
    if not match:
        raise InvalidVersion(f"Invalid version: '{version}'")
    self._version = _Version(
        epoch=int(match.group("epoch")) if match.group("epoch") else 0,
        release=tuple(int(i) for i in match.group("release").split(".")),
        pre=_parse_letter_version(match.group("pre_l"), match.group("pre_n")),
        post=_parse_letter_version(
            match.group("post_l"), match.group("post_n1") or match.group("post_n2")),
        dev=_parse_letter_version(match.group("dev_l"), match.group("dev_n")),
        local=_parse_local_version(match.group("local")),
    )
  \<close>
\<close>

definition py_or :: "string option \<Rightarrow> string option \<Rightarrow> string option" where
  "py_or a b = (if truthy a then a else b)"

definition Version_init :: "string \<Rightarrow> error + Version" where
  "Version_init version =
     (case search Version_regex version of
        None \<Rightarrow> Inl (InvalidVersion version)
      | Some m \<Rightarrow>
          (case group m ''release'' of
             None \<Rightarrow> Inl AttributeError
           | Some r \<Rightarrow>
               Inr \<lparr>epoch = (case group m ''epoch'' of
                                None \<Rightarrow> 0
                              | Some e \<Rightarrow> if e \<noteq> [] then py_int e else 0),
                    release = map py_int (split_on (\<lambda>c. c = CHR ''.'') r),
                    dev = parse_letter_version (group m ''dev_l'') (group m ''dev_n''),
                    pre = parse_letter_version (group m ''pre_l'') (group m ''pre_n''),
                    post = parse_letter_version (group m ''post_l'')
                             (py_or (group m ''post_n1'') (group m ''post_n2'')),
                    local_segment = parse_local_version (group m ''local'')\<rparr>))"

definition parse :: "string \<Rightarrow> error + Version" where
  "parse version = Version_init version"

text \<open>
  Modelled from the spec: \<^verbatim>\<open>Infinity\<close> and \<^verbatim>\<open>NegativeInfinity\<close> of
  \<^verbatim>\<open>packaging._structures\<close> (not under the sources), which a comparison key mixes with
  ordinary values. \<^verbatim>\<open>NegativeInfinity\<close> equals only itself and is below every other
  value (\<^verbatim>\<open>__lt__\<close> returns \<^verbatim>\<open>True\<close>, \<^verbatim>\<open>__gt__\<close> returns \<^verbatim>\<open>False\<close>), \<^verbatim>\<open>Infinity\<close> equals only
  itself and is above every other value; two ordinary values compare as they do
  themselves. Python compares tuples at their first unequal position, which is where
  these methods are asked.
\<close>

datatype 'a bounded = NegativeInfinity | Finite 'a | Infinity

instantiation bounded :: (linorder) linorder
begin

fun less_eq_bounded :: "'a bounded \<Rightarrow> 'a bounded \<Rightarrow> bool" where
  "less_eq_bounded NegativeInfinity y = True"
| "less_eq_bounded (Finite a) NegativeInfinity = False"
| "less_eq_bounded (Finite a) (Finite b) = (a \<le> b)"
| "less_eq_bounded (Finite a) Infinity = True"
| "less_eq_bounded Infinity NegativeInfinity = False"
| "less_eq_bounded Infinity (Finite b) = False"
| "less_eq_bounded Infinity Infinity = True"

fun less_bounded :: "'a bounded \<Rightarrow> 'a bounded \<Rightarrow> bool" where
  "less_bounded NegativeInfinity NegativeInfinity = False"
| "less_bounded NegativeInfinity (Finite b) = True"
| "less_bounded NegativeInfinity Infinity = True"
| "less_bounded (Finite a) NegativeInfinity = False"
| "less_bounded (Finite a) (Finite b) = (a < b)"
| "less_bounded (Finite a) Infinity = True"
| "less_bounded Infinity y = False"

instance
proof
  fix x y z :: "'a bounded"
  show "(x < y) = (x \<le> y \<and> \<not> y \<le> x)"
    by (cases x; cases y) auto
  show "x \<le> x"
    by (cases x) auto
  show "x \<le> y \<Longrightarrow> y \<le> z \<Longrightarrow> x \<le> z"
    by (cases x; cases y; cases z) auto
  show "x \<le> y \<Longrightarrow> y \<le> x \<Longrightarrow> x = y"
    by (cases x; cases y) auto
  show "x \<le> y \<or> y \<le> x"
    by (cases x; cases y) auto
qed

end

text \<open>
  Modelled from the spec: the comparison key \<^verbatim>\<open>_cmpkey\<close> of \<^verbatim>\<open>packaging.version\<close> (not
  under the sources). Python orders tuples and strings lexicographically, which is the
  order of \<^typ>\<open>'a list\<close> and of pairs here; the six-tuple is a nested pair.
  \<^verbatim>\<open>
    _release = tuple(reversed(list(itertools.dropwhile(lambda x: x == 0, reversed(release)))))
    if pre is None and post is None and dev is not None: _pre = NegativeInfinity
    elif pre is None: _pre = Infinity
    else: _pre = pre
    if post is None: _post = NegativeInfinity
    else: _post = post
    if dev is None: _dev = Infinity
    else: _dev = dev
    if local is None: _local = NegativeInfinity
    else: _local = tuple((i, "") if isinstance(i, int) else (NegativeInfinity, i) for i in local)
    return epoch, _release, _pre, _post, _dev, _local
  \<close>
\<close>

type_synonym CmpKey =
  "nat \<times> nat list \<times> (string \<times> nat) bounded \<times> (string \<times> nat) bounded \<times>
   (string \<times> nat) bounded \<times> (nat bounded \<times> string) list bounded"

definition cmpkey ::
  "nat \<Rightarrow> nat list \<Rightarrow> (string \<times> nat) option \<Rightarrow> (string \<times> nat) option \<Rightarrow>
   (string \<times> nat) option \<Rightarrow> local_part list option \<Rightarrow> CmpKey" where
  "cmpkey epoch' release' pre' post' dev' local' =
     (let key_release = rev (dropWhile (\<lambda>x. x = 0) (rev release'));
          key_pre = (if pre' = None \<and> post' = None \<and> dev' \<noteq> None then NegativeInfinity
                     else (case pre' of None \<Rightarrow> Infinity | Some p \<Rightarrow> Finite p));
          key_post = (case post' of None \<Rightarrow> NegativeInfinity | Some p \<Rightarrow> Finite p);
          key_dev = (case dev' of None \<Rightarrow> Infinity | Some d \<Rightarrow> Finite d);
          key_local =
            (case local' of
               None \<Rightarrow> NegativeInfinity
             | Some l \<Rightarrow>
                 Finite (map (\<lambda>i. case i of
                                   LocalInt n \<Rightarrow> (Finite n, [])
                                 | LocalStr s \<Rightarrow> (NegativeInfinity, s)) l))
      in (epoch', key_release, key_pre, key_post, key_dev, key_local))"

text \<open>
  Modelled from the spec: the attribute \<^verbatim>\<open>_key\<close> that \<^verbatim>\<open>Version.__init__\<close> computes, and
  the comparison methods of \<^verbatim>\<open>_BaseVersion\<close> in \<^verbatim>\<open>packaging.version\<close> (not under the
  sources): \<^verbatim>\<open>__lt__\<close> is \<^verbatim>\<open>self._key < other._key\<close>, \<^verbatim>\<open>__ge__\<close> is
  \<^verbatim>\<open>self._key >= other._key\<close>, \<^verbatim>\<open>__eq__\<close> is \<^verbatim>\<open>self._key == other._key\<close>. This is what the
  spec calls the standard version-ordering relation.
\<close>

definition Version_key :: "Version \<Rightarrow> CmpKey" where
  "Version_key self =
     cmpkey (epoch self) (release self) (pre self) (post self) (dev self) (local_segment self)"

definition Version_lt :: "Version \<Rightarrow> Version \<Rightarrow> bool" where
  "Version_lt self other = (Version_key self < Version_key other)"

definition Version_ge :: "Version \<Rightarrow> Version \<Rightarrow> bool" where
  "Version_ge self other = (Version_key self \<ge> Version_key other)"

definition Version_eq :: "Version \<Rightarrow> Version \<Rightarrow> bool" where
  "Version_eq self other = (Version_key self = Version_key other)"

section \<open>The module \<^verbatim>\<open>_compat\<close>\<close>

text \<open>
  The objects the module binds: the two imported modules, \<^verbatim>\<open>Version\<close> objects and
  booleans. The module's namespace is its \<^verbatim>\<open>__dict__\<close>, a dictionary that keeps the order
  of insertion, so it is an association list; binding a name is \<open>AList.update\<close>, which
  appends a new name and overwrites an old one in place, as a \<^verbatim>\<open>dict\<close> does. The entries
  the interpreter puts there itself (\<^verbatim>\<open>__name__\<close>, \<^verbatim>\<open>__doc__\<close> and the like) are left out.
\<close>

datatype pyobject = PyModule string | PyVersion Version | PyBool bool

type_synonym namespace = "(string \<times> pyobject) list"

definition assign :: "string \<Rightarrow> pyobject \<Rightarrow> namespace \<Rightarrow> namespace" where
  "assign name obj ns = AList.update name obj ns"

definition getattr :: "namespace \<Rightarrow> string \<Rightarrow> pyobject option" where
  "getattr ns name = map_of ns name"

text \<open>
  The imported \<^verbatim>\<open>pandas\<close> module, as far as \<^verbatim>\<open>_compat\<close> reads it: its attribute
  \<^verbatim>\<open>__version__\<close>. Whatever else the installed \<^verbatim>\<open>pandas\<close> holds is the record's extension.
\<close>

record pandas =
  pd_version :: string

text \<open>
  The module body, run when the module is imported. Each statement either binds a name
  or raises; an exception ends the run, and nothing in the module catches one. The
  result is the namespace as the run left it, and the exception that ended it, if any.
\<close>

definition compat_module :: "'a pandas_scheme \<Rightarrow> namespace \<times> error option" where
  "compat_module pd =
     (let ns = assign ''version'' (PyModule ''packaging.version'') [];
          ns = assign ''pd'' (PyModule ''pandas'') ns
      in case parse ''2.2.3'' of Inl e \<Rightarrow> (ns, Some e) | Inr supported \<Rightarrow>
         let ns = assign ''PANDAS_CURRENT_SUPPORTED_VERSION'' (PyVersion supported) ns
         in case parse (pd_version pd) of Inl e \<Rightarrow> (ns, Some e) | Inr installed \<Rightarrow>
         let ns = assign ''PANDAS_VERSION'' (PyVersion installed) ns
         in case parse ''2.1.0'' of Inl e \<Rightarrow> (ns, Some e) | Inr v210 \<Rightarrow>
         let ns = assign ''PANDAS_GE_210'' (PyBool (Version_ge installed v210)) ns
         in case parse ''2.2.0'' of Inl e \<Rightarrow> (ns, Some e) | Inr v220 \<Rightarrow>
         let ns = assign ''PANDAS_GE_220'' (PyBool (Version_ge installed v220)) ns
         in case parse ''3.0.0'' of Inl e \<Rightarrow> (ns, Some e) | Inr v300 \<Rightarrow>
         let ns = assign ''PANDAS_LT_300'' (PyBool (Version_lt installed v300)) ns
         in (ns, None))"

text \<open>
  What can be observed of a run: the exception it raised, if any, its namespace, and the
  value a name has there. After a run that raised, the importer is left with the
  exception only, and \<open>attr\<close> reads the namespace of the abandoned module object.
  \<open>public_names\<close> are the names \<^verbatim>\<open>from _compat import *\<close> binds: the module sets no
  \<^verbatim>\<open>__all__\<close>, so they are the names of its namespace that do not begin with an
  underscore.
\<close>

definition namespace_of :: "'a pandas_scheme \<Rightarrow> namespace" where
  "namespace_of pd = fst (compat_module pd)"

definition raised :: "'a pandas_scheme \<Rightarrow> error option" where
  "raised pd = snd (compat_module pd)"

definition attr :: "'a pandas_scheme \<Rightarrow> string \<Rightarrow> pyobject option" where
  "attr pd name = getattr (namespace_of pd) name"

definition public_names :: "namespace \<Rightarrow> string list" where
  "public_names ns = filter (\<lambda>name. take 1 name \<noteq> ''_'') (map fst ns)"

text \<open>
  The final release with the given release segment and nothing else: what
  \<^verbatim>\<open>version.parse("2.1.0")\<close> denotes is \<open>final_release [2, 1, 0]\<close>.
\<close>

definition final_release :: "nat list \<Rightarrow> Version" where
  "final_release r =
     \<lparr>epoch = 0, release = r, dev = None, pre = None, post = None, local_segment = None\<rparr>"

text \<open>
  Modelled from the spec: the properties \<^verbatim>\<open>is_prerelease\<close> and \<^verbatim>\<open>is_postrelease\<close> of
  \<^verbatim>\<open>Version\<close> in \<^verbatim>\<open>packaging.version\<close> (not under the sources):
  \<^verbatim>\<open>self.dev is not None or self.pre is not None\<close> and \<^verbatim>\<open>self.post is not None\<close>.
\<close>

definition is_prerelease :: "Version \<Rightarrow> bool" where
  "is_prerelease self = (dev self \<noteq> None \<or> pre self \<noteq> None)"

definition is_postrelease :: "Version \<Rightarrow> bool" where
  "is_postrelease self = (post self \<noteq> None)"

text \<open>
  Two properties of a matcher, used to check the bound of \<open>star_iter\<close>: it reads at
  least one character, or it never gives text back.
\<close>

definition consuming :: "(mstate \<Rightarrow> mstate list) \<Rightarrow> bool" where
  "consuming f = (\<forall>st. \<forall>st' \<in> set (f st). length (rest st') < length (rest st))"

definition nonincreasing :: "(mstate \<Rightarrow> mstate list) \<Rightarrow> bool" where
  "nonincreasing f = (\<forall>st. \<forall>st' \<in> set (f st). length (rest st') \<le> length (rest st))"

text \<open>The versions that a list of strings denotes, leaving out the strings that do not parse.\<close>

definition versions :: "string list \<Rightarrow> Version list" where
  "versions ss = concat (map (\<lambda>s. case parse s of Inl e \<Rightarrow> [] | Inr v \<Rightarrow> [v]) ss)"

section \<open>Checks of the model of \<^verbatim>\<open>re\<close> and \<^verbatim>\<open>packaging.version\<close>\<close>

text \<open>
  The bound of \<open>star_iter\<close> never cuts a repetition short: when the repeated matcher
  reads at least one character each round, any bound from the length of the remaining
  text on gives the same result, and the five repeated parts of \<open>Version_regex\<close> do read
  at least one character.
\<close>

lemma consuming_empty: "consuming f \<Longrightarrow> rest st = [] \<Longrightarrow> f st = []"
  by (cases "f st") (auto simp: consuming_def dest!: spec [of _ st])

lemma star_iter_fuel:
  assumes "consuming f"
  shows "length (rest st) \<le> n \<Longrightarrow> length (rest st) \<le> m \<Longrightarrow> star_iter f n st = star_iter f m st"
proof (induction n arbitrary: st m)
  case 0
  then have "f st = []" using assms by (simp add: consuming_empty)
  then show ?case by (cases m) simp_all
next
  case (Suc n)
  show ?case
  proof (cases m)
    case 0
    with Suc.prems have "f st = []" using assms by (simp add: consuming_empty)
    with 0 show ?thesis by simp
  next
    case (Suc m')
    have "star_iter f n st' = star_iter f m' st'" if "st' \<in> set (f st)" for st'
    proof -
      from that assms have "length (rest st') < length (rest st)"
        by (auto simp: consuming_def)
      with Suc.prems Suc have "length (rest st') \<le> n" and "length (rest st') \<le> m'"
        by simp_all
      then show ?thesis by (rule Suc.IH)
    qed
    then have "List.bind (f st) (star_iter f n) = List.bind (f st) (star_iter f m')"
      by (simp add: List.bind_def cong: map_cong)
    with Suc show ?thesis by simp
  qed
qed

lemma step_char_consuming: "consuming (step_char P)"
  unfolding consuming_def
proof (intro allI ballI)
  fix st st'
  assume "st' \<in> set (step_char P st)"
  then show "length (rest st') < length (rest st)"
    by (cases "rest st") (auto simp: step_char_def split: if_splits)
qed

lemma consumingD: "consuming f \<Longrightarrow> st' \<in> set (f st) \<Longrightarrow> length (rest st') < length (rest st)"
  by (simp add: consuming_def)

lemma nonincreasingD:
  "nonincreasing f \<Longrightarrow> st' \<in> set (f st) \<Longrightarrow> length (rest st') \<le> length (rest st)"
  by (simp add: nonincreasing_def)

lemma consuming_nonincreasing: "consuming f \<Longrightarrow> nonincreasing f"
  by (auto simp: consuming_def nonincreasing_def dest: less_imp_le)

lemma nonincreasing_bind:
  assumes "nonincreasing f" and "nonincreasing g"
  shows "nonincreasing (\<lambda>st. List.bind (f st) g)"
  unfolding nonincreasing_def
proof (intro allI ballI)
  fix st st'
  assume "st' \<in> set (List.bind (f st) g)"
  then obtain y where "y \<in> set (f st)" and "st' \<in> set (g y)"
    by (auto simp: List.bind_def)
  then have "length (rest y) \<le> length (rest st)" and "length (rest st') \<le> length (rest y)"
    using assms by (auto dest: nonincreasingD)
  then show "length (rest st') \<le> length (rest st)" by simp
qed

lemma consuming_bind:
  assumes "consuming f" and "nonincreasing g"
  shows "consuming (\<lambda>st. List.bind (f st) g)"
  unfolding consuming_def
proof (intro allI ballI)
  fix st st'
  assume "st' \<in> set (List.bind (f st) g)"
  then obtain y where "y \<in> set (f st)" and "st' \<in> set (g y)"
    by (auto simp: List.bind_def)
  then have "length (rest y) < length (rest st)" and "length (rest st') \<le> length (rest y)"
    using assms by (auto dest: nonincreasingD consumingD)
  then show "length (rest st') < length (rest st)" by simp
qed

lemma nonincreasing_match_lit: "nonincreasing (match_lit s)"
proof (induction s)
  case Nil
  show ?case by (simp add: nonincreasing_def)
next
  case (Cons c cs)
  have "nonincreasing (\<lambda>st. List.bind (step_char (\<lambda>x. lower x = lower c) st) (match_lit cs))"
    by (rule nonincreasing_bind [OF consuming_nonincreasing [OF step_char_consuming] Cons])
  then show ?case by (simp add: nonincreasing_def)
qed

lemma nonincreasing_star_iter:
  assumes "nonincreasing f"
  shows "nonincreasing (star_iter f n)"
proof (induction n)
  case 0
  show ?case by (simp add: nonincreasing_def)
next
  case (Suc n)
  from nonincreasing_bind [OF assms Suc] show ?case
    by (auto simp: nonincreasing_def)
qed

lemma nonincreasing_rmatch: "nonincreasing (rmatch r)"
proof (induction r)
  case (Lit s)
  show ?case by (simp add: nonincreasing_match_lit)
next
  case (Class rs)
  show ?case by (simp add: consuming_nonincreasing step_char_consuming)
next
  case Space
  show ?case by (simp add: consuming_nonincreasing step_char_consuming)
next
  case (Seq r1 r2)
  then show ?case by (simp add: nonincreasing_bind)
next
  case (Star r)
  then show ?case
    using nonincreasing_star_iter [of "rmatch r"] by (auto simp: nonincreasing_def)
next
  case (Plus r)
  from Plus have a: "\<And>st' st''. st'' \<in> set (star_iter (rmatch r) (length (rest st')) st')
      \<Longrightarrow> length (rest st'') \<le> length (rest st')"
    using nonincreasing_star_iter [of "rmatch r"] by (auto simp: nonincreasing_def)
  from Plus a show ?case
    by (fastforce simp: nonincreasing_def List.bind_def intro: order_trans)
next
  case (Group name r)
  then show ?case by (auto simp: nonincreasing_def)
qed (auto simp: nonincreasing_def)

lemma Star_fuel:
  assumes "consuming (rmatch r)" and "length (rest st) \<le> n"
  shows "rmatch (Star r) st = star_iter (rmatch r) n st"
  using star_iter_fuel [OF assms(1) order_refl assms(2)] by simp

lemma consuming_Seq:
  assumes "consuming (rmatch r1)"
  shows "consuming (rmatch (Seq r1 r2))"
  using consuming_bind [OF assms nonincreasing_rmatch [of r2]] by simp

lemma consuming_Lit: "consuming (rmatch (Lit (c # cs)))"
proof -
  have "match_lit (c # cs) =
      (\<lambda>st. List.bind (step_char (\<lambda>x. lower x = lower c) st) (match_lit cs))"
    by (rule ext) simp
  with consuming_bind [OF step_char_consuming nonincreasing_match_lit] show ?thesis
    by simp
qed

lemma repeated_parts_consume:
  "consuming (rmatch Space)"
  "consuming (rmatch digit)"
  "consuming (rmatch alnum)"
  "consuming (rmatch (seqs [Lit ''.'', Plus digit]))"
  "consuming (rmatch (seqs [sep, Plus alnum]))"
  by (simp_all add: digit_def alnum_def sep_def step_char_consuming consuming_Seq consuming_Lit
      del: rmatch.simps(2,5))

text \<open>
  The model orders the example versions of PEP 440 (its summary of permitted suffixes
  and relative ordering) as PEP 440 lists them, each strictly below the next.
\<close>

lemma pep440_example_order:
  "length (versions
     [''1.dev0'', ''1.0.dev456'', ''1.0a1'', ''1.0a2.dev456'', ''1.0a12.dev456'', ''1.0a12'',
      ''1.0b1.dev456'', ''1.0b2'', ''1.0b2.post345.dev456'', ''1.0b2.post345'',
      ''1.0rc1.dev456'', ''1.0rc1'', ''1.0'', ''1.0+abc.5'', ''1.0+abc.7'', ''1.0+5'',
      ''1.0.post456.dev34'', ''1.0.post456'', ''1.0.15'', ''1.1.dev1'']) = 20
   \<and> sorted_wrt Version_lt (versions
     [''1.dev0'', ''1.0.dev456'', ''1.0a1'', ''1.0a2.dev456'', ''1.0a12.dev456'', ''1.0a12'',
      ''1.0b1.dev456'', ''1.0b2'', ''1.0b2.post345.dev456'', ''1.0b2.post345'',
      ''1.0rc1.dev456'', ''1.0rc1'', ''1.0'', ''1.0+abc.5'', ''1.0+abc.7'', ''1.0+5'',
      ''1.0.post456.dev34'', ''1.0.post456'', ''1.0.15'', ''1.1.dev1''])"
  by code_simp

section \<open>The version literals of the module\<close>

lemma parse_2_2_3: "parse ''2.2.3'' = Inr (final_release [2, 2, 3])"
  by code_simp

lemma parse_2_1_0: "parse ''2.1.0'' = Inr (final_release [2, 1, 0])"
  by code_simp

lemma parse_2_2_0: "parse ''2.2.0'' = Inr (final_release [2, 2, 0])"
  by code_simp

lemma parse_3_0_0: "parse ''3.0.0'' = Inr (final_release [3, 0, 0])"
  by code_simp

lemmas parse_literals = parse_2_2_3 parse_2_1_0 parse_2_2_0 parse_3_0_0

text \<open>Version strings used as examples below.\<close>

lemma parse_2_10_0: "parse ''2.10.0'' = Inr (final_release [2, 10, 0])"
  by code_simp

lemma parse_dirty: "parse ''2.2.3-dirty'' = Inl (InvalidVersion ''2.2.3-dirty'')"
  by code_simp

lemma parse_3_0_0_dev0:
  "parse ''3.0.0.dev0'' =
     Inr \<lparr>epoch = 0, release = [3, 0, 0], dev = Some (''dev'', 0), pre = None, post = None,
          local_segment = None\<rparr>"
  by code_simp

lemma parse_3_0_0_rc1_post1:
  "parse ''3.0.0rc1.post1'' =
     Inr \<lparr>epoch = 0, release = [3, 0, 0], dev = None, pre = Some (''rc'', 1),
          post = Some (''post'', 1), local_segment = None\<rparr>"
  by code_simp

lemma parse_3_0_0_post1_dev0:
  "parse ''3.0.0.post1.dev0'' =
     Inr \<lparr>epoch = 0, release = [3, 0, 0], dev = Some (''dev'', 0), pre = None,
          post = Some (''post'', 1), local_segment = None\<rparr>"
  by code_simp

section \<open>The version order\<close>

lemma Version_lt_iff_not_ge: "Version_lt a b = (\<not> Version_ge a b)"
  by (simp add: Version_lt_def Version_ge_def not_le)

lemma Version_ge_refl: "Version_ge a a"
  by (simp add: Version_ge_def)

lemma Version_ge_trans: "Version_ge a b \<Longrightarrow> Version_ge b c \<Longrightarrow> Version_ge a c"
  unfolding Version_ge_def by (rule order_trans)

lemma Version_ge_total: "Version_ge a b \<or> Version_ge b a"
  unfolding Version_ge_def by (rule linear)

lemma key_final_release:
  "Version_key (final_release r) =
     (0, rev (dropWhile (\<lambda>x. x = 0) (rev r)), Infinity, NegativeInfinity, Infinity,
      NegativeInfinity)"
  by (simp add: Version_key_def final_release_def cmpkey_def)

lemma ge_220_210: "Version_ge (final_release [2, 2, 0]) (final_release [2, 1, 0])"
  by (simp add: Version_ge_def key_final_release)

lemma key_of_prerelease:
  assumes "is_prerelease v" and "pre v \<noteq> None \<or> post v = None"
  shows "\<exists>p t. Version_key v = (epoch v, rev (dropWhile (\<lambda>x. x = 0) (rev (release v))), p, t)
               \<and> p < Infinity"
proof (cases "pre v")
  case None
  with assms have "post v = None" and "dev v \<noteq> None"
    by (simp_all add: is_prerelease_def)
  with None show ?thesis
    by (simp add: Version_key_def cmpkey_def Let_def)
next
  case (Some p)
  then show ?thesis
    by (simp add: Version_key_def cmpkey_def Let_def)
qed

section \<open>The two ways a run of the module ends\<close>

text \<open>
  If the installed version string parses, all seven statements run; if it does not, the
  run ends at \<^verbatim>\<open>PANDAS_VERSION = version.parse(pd.__version__)\<close> with the parser's
  exception, after the two imports and the first assignment.
\<close>

lemma compat_module_loaded:
  assumes "parse (pd_version pd) = Inr v"
  shows "compat_module pd =
    ([(''version'', PyModule ''packaging.version''),
      (''pd'', PyModule ''pandas''),
      (''PANDAS_CURRENT_SUPPORTED_VERSION'', PyVersion (final_release [2, 2, 3])),
      (''PANDAS_VERSION'', PyVersion v),
      (''PANDAS_GE_210'', PyBool (Version_ge v (final_release [2, 1, 0]))),
      (''PANDAS_GE_220'', PyBool (Version_ge v (final_release [2, 2, 0]))),
      (''PANDAS_LT_300'', PyBool (Version_lt v (final_release [3, 0, 0])))],
     None)"
  using assms by (simp add: compat_module_def parse_literals assign_def)

lemma compat_module_failed:
  assumes "parse (pd_version pd) = Inl e"
  shows "compat_module pd =
    ([(''version'', PyModule ''packaging.version''),
      (''pd'', PyModule ''pandas''),
      (''PANDAS_CURRENT_SUPPORTED_VERSION'', PyVersion (final_release [2, 2, 3]))],
     Some e)"
  using assms by (simp add: compat_module_def parse_literals assign_def)

lemma attr_loaded:
  assumes "parse (pd_version pd) = Inr v"
  shows "raised pd = None"
    and "attr pd ''version'' = Some (PyModule ''packaging.version'')"
    and "attr pd ''pd'' = Some (PyModule ''pandas'')"
    and "attr pd ''PANDAS_CURRENT_SUPPORTED_VERSION'' = Some (PyVersion (final_release [2, 2, 3]))"
    and "attr pd ''PANDAS_VERSION'' = Some (PyVersion v)"
    and "attr pd ''PANDAS_GE_210'' = Some (PyBool (Version_ge v (final_release [2, 1, 0])))"
    and "attr pd ''PANDAS_GE_220'' = Some (PyBool (Version_ge v (final_release [2, 2, 0])))"
    and "attr pd ''PANDAS_LT_300'' = Some (PyBool (Version_lt v (final_release [3, 0, 0])))"
  by (simp_all add: raised_def attr_def namespace_of_def getattr_def
      compat_module_loaded [OF assms])

lemma attr_failed:
  assumes "parse (pd_version pd) = Inl e"
  shows "raised pd = Some e"
    and "attr pd ''PANDAS_CURRENT_SUPPORTED_VERSION'' = Some (PyVersion (final_release [2, 2, 3]))"
    and "attr pd ''PANDAS_VERSION'' = None"
    and "attr pd ''PANDAS_GE_210'' = None"
    and "attr pd ''PANDAS_GE_220'' = None"
    and "attr pd ''PANDAS_LT_300'' = None"
  by (simp_all add: raised_def attr_def namespace_of_def getattr_def
      compat_module_failed [OF assms])

section \<open>The claims\<close>

text \<open>
  C1. For every installed version string that parses, the module loads, \<^verbatim>\<open>PANDAS_VERSION\<close>
  is the parsed installed version, \<^verbatim>\<open>PANDAS_GE_210\<close> is \<^verbatim>\<open>True\<close> if and only if that
  version is at least version 2.1.0, and \<^verbatim>\<open>PANDAS_GE_220\<close> is \<^verbatim>\<open>True\<close> if and only if it is
  at least version 2.2.0, in the order of versions.
\<close>

theorem installed_version_and_ge_flags:
  assumes "parse (pd_version pd) = Inr v"
  shows "raised pd = None
    \<and> attr pd ''PANDAS_VERSION'' = Some (PyVersion v)
    \<and> attr pd ''PANDAS_GE_210'' = Some (PyBool (Version_ge v (final_release [2, 1, 0])))
    \<and> attr pd ''PANDAS_GE_220'' = Some (PyBool (Version_ge v (final_release [2, 2, 0])))"
  using attr_loaded [OF assms] by simp

text \<open>
  At \<^verbatim>\<open>2.10.0\<close> both flags are \<^verbatim>\<open>True\<close>, although the string \<^verbatim>\<open>"2.10.0"\<close> is below the
  string \<^verbatim>\<open>"2.2.0"\<close>: the comparison is not one of strings.
\<close>

theorem installed_version_and_ge_flags_witness:
  "parse (pd_version \<lparr>pd_version = ''2.10.0''\<rparr>) = Inr (final_release [2, 10, 0])
   \<and> raised \<lparr>pd_version = ''2.10.0''\<rparr> = None
   \<and> attr \<lparr>pd_version = ''2.10.0''\<rparr> ''PANDAS_VERSION''
       = Some (PyVersion (final_release [2, 10, 0]))
   \<and> attr \<lparr>pd_version = ''2.10.0''\<rparr> ''PANDAS_GE_210'' = Some (PyBool True)
   \<and> attr \<lparr>pd_version = ''2.10.0''\<rparr> ''PANDAS_GE_220'' = Some (PyBool True)
   \<and> (''2.10.0'' :: string) < ''2.2.0''"
proof -
  have h: "parse (pd_version \<lparr>pd_version = ''2.10.0''\<rparr>) = Inr (final_release [2, 10, 0])"
    by (simp add: parse_2_10_0)
  have "Version_ge (final_release [2, 10, 0]) (final_release [2, 1, 0])"
    and "Version_ge (final_release [2, 10, 0]) (final_release [2, 2, 0])"
    by (simp_all add: Version_ge_def key_final_release)
  with h installed_version_and_ge_flags [OF h] show ?thesis by simp
qed

text \<open>
  C2, as stated: each of \<^verbatim>\<open>PANDAS_GE_210\<close>, \<^verbatim>\<open>PANDAS_GE_220\<close> and \<^verbatim>\<open>PANDAS_LT_300\<close> is \<^verbatim>\<open>True\<close>
  exactly when the installed version is at least its threshold. It fails for
  \<^verbatim>\<open>PANDAS_LT_300\<close>: with \<^verbatim>\<open>3.0.0\<close> installed the version is at least the threshold 3.0.0
  and the flag is \<^verbatim>\<open>False\<close>.
\<close>

theorem lt_300_false_at_its_threshold:
  "parse ''3.0.0'' = Inr (final_release [3, 0, 0])
   \<and> Version_ge (final_release [3, 0, 0]) (final_release [3, 0, 0])
   \<and> attr \<lparr>pd_version = ''3.0.0''\<rparr> ''PANDAS_LT_300'' = Some (PyBool False)"
proof -
  have h: "parse (pd_version \<lparr>pd_version = ''3.0.0''\<rparr>) = Inr (final_release [3, 0, 0])"
    by (simp add: parse_3_0_0)
  show ?thesis
    using attr_loaded(8) [OF h]
    by (simp add: parse_3_0_0 Version_ge_refl Version_lt_iff_not_ge)
qed

text \<open>
  C2, amended: \<^verbatim>\<open>PANDAS_GE_210\<close> and \<^verbatim>\<open>PANDAS_GE_220\<close> are \<^verbatim>\<open>True\<close> exactly when the installed
  version is at least 2.1.0 and 2.2.0; \<^verbatim>\<open>PANDAS_LT_300\<close> is \<^verbatim>\<open>True\<close> exactly when the
  installed version is strictly below 3.0.0, that is, exactly when it is not at least
  its threshold.
\<close>

theorem flags_against_thresholds:
  assumes "parse (pd_version pd) = Inr v"
  shows "attr pd ''PANDAS_GE_210'' = Some (PyBool (Version_ge v (final_release [2, 1, 0])))
    \<and> attr pd ''PANDAS_GE_220'' = Some (PyBool (Version_ge v (final_release [2, 2, 0])))
    \<and> attr pd ''PANDAS_LT_300'' = Some (PyBool (Version_lt v (final_release [3, 0, 0])))
    \<and> Version_lt v (final_release [3, 0, 0]) = (\<not> Version_ge v (final_release [3, 0, 0]))"
  using attr_loaded [OF assms] by (simp add: Version_lt_iff_not_ge)

theorem flags_against_thresholds_witness:
  "parse (pd_version \<lparr>pd_version = ''2.1.0''\<rparr>) = Inr (final_release [2, 1, 0])
   \<and> attr \<lparr>pd_version = ''2.1.0''\<rparr> ''PANDAS_GE_210'' = Some (PyBool True)
   \<and> attr \<lparr>pd_version = ''2.1.0''\<rparr> ''PANDAS_GE_220'' = Some (PyBool False)
   \<and> attr \<lparr>pd_version = ''2.1.0''\<rparr> ''PANDAS_LT_300'' = Some (PyBool True)"
proof -
  have h: "parse (pd_version \<lparr>pd_version = ''2.1.0''\<rparr>) = Inr (final_release [2, 1, 0])"
    by (simp add: parse_2_1_0)
  have "Version_ge (final_release [2, 1, 0]) (final_release [2, 1, 0])"
    and "\<not> Version_ge (final_release [2, 1, 0]) (final_release [2, 2, 0])"
    and "Version_lt (final_release [2, 1, 0]) (final_release [3, 0, 0])"
    by (simp_all add: Version_ge_def Version_lt_def key_final_release)
  with h flags_against_thresholds [OF h] show ?thesis by simp
qed

text \<open>
  C3. \<^verbatim>\<open>PANDAS_CURRENT_SUPPORTED_VERSION\<close> is the parsed version 2.2.3 whatever version is
  installed: two runs of the module bind it to the same value. The assignment is the
  first one of the module, so this holds of every run, also of one that the installed
  version string then ends with an exception.
\<close>

theorem supported_version_is_constant:
  "attr pd ''PANDAS_CURRENT_SUPPORTED_VERSION'' = Some (PyVersion (final_release [2, 2, 3]))
   \<and> attr pd ''PANDAS_CURRENT_SUPPORTED_VERSION'' = attr pd' ''PANDAS_CURRENT_SUPPORTED_VERSION''"
proof -
  have a: "attr p ''PANDAS_CURRENT_SUPPORTED_VERSION'' = Some (PyVersion (final_release [2, 2, 3]))"
    for p :: "'c pandas_scheme"
    by (cases "parse (pd_version p)") (simp_all add: attr_failed attr_loaded)
  show ?thesis by (simp add: a)
qed

theorem supported_version_is_constant_witness:
  "attr \<lparr>pd_version = ''1.5.3''\<rparr> ''PANDAS_CURRENT_SUPPORTED_VERSION''
     = Some (PyVersion (final_release [2, 2, 3]))
   \<and> attr \<lparr>pd_version = ''1.5.3''\<rparr> ''PANDAS_CURRENT_SUPPORTED_VERSION''
     = attr \<lparr>pd_version = ''2.2.3-dirty''\<rparr> ''PANDAS_CURRENT_SUPPORTED_VERSION''"
  by (rule supported_version_is_constant)

text \<open>
  C4. If parsing the installed version string fails, the run of the module ends with
  exactly the parser's exception, and none of \<^verbatim>\<open>PANDAS_VERSION\<close>, \<^verbatim>\<open>PANDAS_GE_210\<close>,
  \<^verbatim>\<open>PANDAS_GE_220\<close>, \<^verbatim>\<open>PANDAS_LT_300\<close> is bound; if parsing succeeds, no exception is
  raised.
\<close>

theorem parse_failure_propagates:
  "(\<forall>e. parse (pd_version pd) = Inl e \<longrightarrow>
      raised pd = Some e
      \<and> attr pd ''PANDAS_VERSION'' = None
      \<and> attr pd ''PANDAS_GE_210'' = None
      \<and> attr pd ''PANDAS_GE_220'' = None
      \<and> attr pd ''PANDAS_LT_300'' = None)
   \<and> (\<forall>v. parse (pd_version pd) = Inr v \<longrightarrow> raised pd = None)"
  by (simp add: attr_failed attr_loaded)

theorem parse_failure_propagates_witness:
  "parse ''2.2.3-dirty'' = Inl (InvalidVersion ''2.2.3-dirty'')
   \<and> raised \<lparr>pd_version = ''2.2.3-dirty''\<rparr> = Some (InvalidVersion ''2.2.3-dirty'')
   \<and> attr \<lparr>pd_version = ''2.2.3-dirty''\<rparr> ''PANDAS_VERSION'' = None
   \<and> attr \<lparr>pd_version = ''2.2.3-dirty''\<rparr> ''PANDAS_GE_210'' = None
   \<and> attr \<lparr>pd_version = ''2.2.3-dirty''\<rparr> ''PANDAS_GE_220'' = None
   \<and> attr \<lparr>pd_version = ''2.2.3-dirty''\<rparr> ''PANDAS_LT_300'' = None
   \<and> parse ''2.2.3'' = Inr (final_release [2, 2, 3])
   \<and> raised \<lparr>pd_version = ''2.2.3''\<rparr> = None"
proof -
  have bad: "parse (pd_version \<lparr>pd_version = ''2.2.3-dirty''\<rparr>)
               = Inl (InvalidVersion ''2.2.3-dirty'')"
    by (simp add: parse_dirty)
  have good: "parse (pd_version \<lparr>pd_version = ''2.2.3''\<rparr>) = Inr (final_release [2, 2, 3])"
    by (simp add: parse_2_2_3)
  from bad parse_failure_propagates [of "\<lparr>pd_version = ''2.2.3-dirty''\<rparr>"]
  have 1: "raised \<lparr>pd_version = ''2.2.3-dirty''\<rparr> = Some (InvalidVersion ''2.2.3-dirty'')
      \<and> attr \<lparr>pd_version = ''2.2.3-dirty''\<rparr> ''PANDAS_VERSION'' = None
      \<and> attr \<lparr>pd_version = ''2.2.3-dirty''\<rparr> ''PANDAS_GE_210'' = None
      \<and> attr \<lparr>pd_version = ''2.2.3-dirty''\<rparr> ''PANDAS_GE_220'' = None
      \<and> attr \<lparr>pd_version = ''2.2.3-dirty''\<rparr> ''PANDAS_LT_300'' = None"
    by blast
  from good parse_failure_propagates [of "\<lparr>pd_version = ''2.2.3''\<rparr>"]
  have 2: "raised \<lparr>pd_version = ''2.2.3''\<rparr> = None"
    by blast
  from 1 2 show ?thesis by (simp add: parse_dirty parse_2_2_3)
qed

text \<open>
  C5. The \<^verbatim>\<open>GE\<close> flags are monotone: for every installed version, \<^verbatim>\<open>PANDAS_GE_220\<close> being
  \<^verbatim>\<open>True\<close> implies \<^verbatim>\<open>PANDAS_GE_210\<close> being \<^verbatim>\<open>True\<close>, because 2.2.0 is at least 2.1.0 and
  the order of versions is transitive.
\<close>

theorem ge_220_implies_ge_210:
  assumes "attr pd ''PANDAS_GE_220'' = Some (PyBool True)"
  shows "attr pd ''PANDAS_GE_210'' = Some (PyBool True)"
proof (cases "parse (pd_version pd)")
  case (Inl e)
  with assms show ?thesis by (simp add: attr_failed)
next
  case (Inr v)
  with assms have "Version_ge v (final_release [2, 2, 0])"
    by (simp add: attr_loaded)
  then have "Version_ge v (final_release [2, 1, 0])"
    using ge_220_210 by (rule Version_ge_trans)
  with Inr show ?thesis by (simp add: attr_loaded)
qed

theorem ge_220_implies_ge_210_witness:
  "attr \<lparr>pd_version = ''2.2.3''\<rparr> ''PANDAS_GE_220'' = Some (PyBool True)
   \<and> attr \<lparr>pd_version = ''2.2.3''\<rparr> ''PANDAS_GE_210'' = Some (PyBool True)"
proof -
  have p: "parse (pd_version \<lparr>pd_version = ''2.2.3''\<rparr>) = Inr (final_release [2, 2, 3])"
    by (simp add: parse_2_2_3)
  have "Version_ge (final_release [2, 2, 3]) (final_release [2, 2, 0])"
    by (simp add: Version_ge_def key_final_release)
  with p have h: "attr \<lparr>pd_version = ''2.2.3''\<rparr> ''PANDAS_GE_220'' = Some (PyBool True)"
    by (simp add: attr_loaded)
  from h ge_220_implies_ge_210 [OF h] show ?thesis by simp
qed

text \<open>
  C6, as stated: the public names of the module are exactly
  \<^verbatim>\<open>PANDAS_CURRENT_SUPPORTED_VERSION\<close>, \<^verbatim>\<open>PANDAS_VERSION\<close>, \<^verbatim>\<open>PANDAS_GE_210\<close>,
  \<^verbatim>\<open>PANDAS_GE_220\<close> and \<^verbatim>\<open>PANDAS_LT_300\<close>, and no others. It fails: \<^verbatim>\<open>from packaging
  import version\<close> binds the name \<^verbatim>\<open>version\<close> in the module's namespace, the name starts
  with no underscore and the module sets no \<^verbatim>\<open>__all__\<close>, so it is a public name of the
  loaded module, and it is none of the five.
\<close>

theorem imported_name_is_public:
  "raised \<lparr>pd_version = ''2.2.3''\<rparr> = None
   \<and> ''version'' \<in> set (public_names (namespace_of \<lparr>pd_version = ''2.2.3''\<rparr>))
   \<and> attr \<lparr>pd_version = ''2.2.3''\<rparr> ''version'' = Some (PyModule ''packaging.version'')
   \<and> set (public_names (namespace_of \<lparr>pd_version = ''2.2.3''\<rparr>)) \<noteq>
       {''PANDAS_CURRENT_SUPPORTED_VERSION'', ''PANDAS_VERSION'', ''PANDAS_GE_210'',
        ''PANDAS_GE_220'', ''PANDAS_LT_300''}"
proof -
  have h: "parse (pd_version \<lparr>pd_version = ''2.2.3''\<rparr>) = Inr (final_release [2, 2, 3])"
    by (simp add: parse_2_2_3)
  have names: "public_names (namespace_of \<lparr>pd_version = ''2.2.3''\<rparr>) =
      [''version'', ''pd'', ''PANDAS_CURRENT_SUPPORTED_VERSION'', ''PANDAS_VERSION'',
       ''PANDAS_GE_210'', ''PANDAS_GE_220'', ''PANDAS_LT_300'']"
    by (simp add: namespace_of_def public_names_def compat_module_loaded [OF h])
  have inside: "''version'' \<in> set (public_names (namespace_of \<lparr>pd_version = ''2.2.3''\<rparr>))"
    by (simp add: names)
  have outside: "''version'' \<notin> {''PANDAS_CURRENT_SUPPORTED_VERSION'', ''PANDAS_VERSION'',
      ''PANDAS_GE_210'', ''PANDAS_GE_220'', ''PANDAS_LT_300''}"
    by simp
  from inside outside
  have "set (public_names (namespace_of \<lparr>pd_version = ''2.2.3''\<rparr>)) \<noteq>
      {''PANDAS_CURRENT_SUPPORTED_VERSION'', ''PANDAS_VERSION'', ''PANDAS_GE_210'',
       ''PANDAS_GE_220'', ''PANDAS_LT_300''}"
    by metis
  with inside show ?thesis
    by (simp add: attr_loaded [OF h])
qed

text \<open>
  C6, amended: the loaded module has exactly seven names, all public and each bound
  once: the two its import statements bind, \<^verbatim>\<open>version\<close> and \<^verbatim>\<open>pd\<close>, which are module
  objects, and the five constants its assignments bind, in this order:
  \<^verbatim>\<open>PANDAS_CURRENT_SUPPORTED_VERSION\<close> (the version 2.2.3) and \<^verbatim>\<open>PANDAS_VERSION\<close> (the
  installed version), which are \<^verbatim>\<open>Version\<close> objects, and \<^verbatim>\<open>PANDAS_GE_210\<close>,
  \<^verbatim>\<open>PANDAS_GE_220\<close>, \<^verbatim>\<open>PANDAS_LT_300\<close>, which are booleans. It holds no function.
\<close>

theorem names_of_loaded_module:
  assumes "parse (pd_version pd) = Inr v"
  shows "raised pd = None
    \<and> public_names (namespace_of pd) =
        [''version'', ''pd'', ''PANDAS_CURRENT_SUPPORTED_VERSION'', ''PANDAS_VERSION'',
         ''PANDAS_GE_210'', ''PANDAS_GE_220'', ''PANDAS_LT_300'']
    \<and> (\<exists>ge_210 ge_220 lt_300.
         namespace_of pd =
           [(''version'', PyModule ''packaging.version''),
            (''pd'', PyModule ''pandas''),
            (''PANDAS_CURRENT_SUPPORTED_VERSION'', PyVersion (final_release [2, 2, 3])),
            (''PANDAS_VERSION'', PyVersion v),
            (''PANDAS_GE_210'', PyBool ge_210),
            (''PANDAS_GE_220'', PyBool ge_220),
            (''PANDAS_LT_300'', PyBool lt_300)])"
  by (simp add: raised_def namespace_of_def public_names_def compat_module_loaded [OF assms])

theorem names_of_loaded_module_witness:
  "parse ''2.2.3'' = Inr (final_release [2, 2, 3])
   \<and> raised \<lparr>pd_version = ''2.2.3''\<rparr> = None
   \<and> public_names (namespace_of \<lparr>pd_version = ''2.2.3''\<rparr>) =
        [''version'', ''pd'', ''PANDAS_CURRENT_SUPPORTED_VERSION'', ''PANDAS_VERSION'',
         ''PANDAS_GE_210'', ''PANDAS_GE_220'', ''PANDAS_LT_300'']"
proof -
  have h: "parse (pd_version \<lparr>pd_version = ''2.2.3''\<rparr>) = Inr (final_release [2, 2, 3])"
    by (simp add: parse_2_2_3)
  from names_of_loaded_module [OF h] show ?thesis by (simp add: parse_2_2_3)
qed

text \<open>
  C7, as stated: for an installed pre-release or development release of 3.0.0,
  \<^verbatim>\<open>PANDAS_LT_300\<close> is \<^verbatim>\<open>True\<close> and \<^verbatim>\<open>PANDAS_GE_220\<close> is \<^verbatim>\<open>True\<close>. It fails at
  \<^verbatim>\<open>3.0.0.post1.dev0\<close>: the version has epoch 0, the release segment 3.0.0 and a
  development segment, \<^verbatim>\<open>is_prerelease\<close> holds of it, and it sorts above 3.0.0, so
  \<^verbatim>\<open>PANDAS_LT_300\<close> is \<^verbatim>\<open>False\<close>.
\<close>

theorem development_release_of_post_release_not_lt_300:
  "parse ''3.0.0.post1.dev0'' =
     Inr \<lparr>epoch = 0, release = [3, 0, 0], dev = Some (''dev'', 0), pre = None,
          post = Some (''post'', 1), local_segment = None\<rparr>
   \<and> epoch \<lparr>epoch = 0, release = [3, 0, 0], dev = Some (''dev'', 0), pre = None,
          post = Some (''post'', 1), local_segment = None\<rparr> = 0
   \<and> rev (dropWhile (\<lambda>x. x = 0) (rev (release
        \<lparr>epoch = 0, release = [3, 0, 0], dev = Some (''dev'', 0), pre = None,
          post = Some (''post'', 1), local_segment = None\<rparr>))) = [3]
   \<and> is_prerelease \<lparr>epoch = 0, release = [3, 0, 0], dev = Some (''dev'', 0), pre = None,
          post = Some (''post'', 1), local_segment = None\<rparr>
   \<and> attr \<lparr>pd_version = ''3.0.0.post1.dev0''\<rparr> ''PANDAS_LT_300'' = Some (PyBool False)"
proof -
  let ?v = "\<lparr>epoch = 0, release = [3, 0, 0], dev = Some (''dev'', 0), pre = None,
          post = Some (''post'', 1), local_segment = None\<rparr>"
  have h: "parse (pd_version \<lparr>pd_version = ''3.0.0.post1.dev0''\<rparr>) = Inr ?v"
    by (simp add: parse_3_0_0_post1_dev0)
  have k: "Version_key ?v =
      (0, [3], Infinity, Finite (''post'', 1), Finite (''dev'', 0), NegativeInfinity)"
    by (simp add: Version_key_def cmpkey_def)
  have "\<not> Version_lt ?v (final_release [3, 0, 0])"
    unfolding Version_lt_def k by (simp add: key_final_release)
  with attr_loaded(8) [OF h] show ?thesis
    by (simp add: parse_3_0_0_post1_dev0 is_prerelease_def)
qed

text \<open>
  C7, amended: for an installed pre-release or development release of 3.0.0 (epoch 0,
  release segment 3.0.0 up to trailing zeros, a pre-release or development segment) that
  has a pre-release segment or no post-release segment, such as \<^verbatim>\<open>3.0.0.dev0\<close>,
  \<^verbatim>\<open>3.0.0rc1\<close> or \<^verbatim>\<open>3.0.0rc1.post1\<close>, \<^verbatim>\<open>PANDAS_LT_300\<close> is \<^verbatim>\<open>True\<close> and \<^verbatim>\<open>PANDAS_GE_220\<close> is
  \<^verbatim>\<open>True\<close>: the order of versions puts it strictly below the final release 3.0.0. What
  is left out is a development release of a post-release of 3.0.0, without a pre-release
  segment.
\<close>

theorem prerelease_of_3_0_0:
  assumes "parse (pd_version pd) = Inr v"
    and "epoch v = 0"
    and "rev (dropWhile (\<lambda>x. x = 0) (rev (release v))) = [3]"
    and "is_prerelease v"
    and "pre v \<noteq> None \<or> post v = None"
  shows "attr pd ''PANDAS_LT_300'' = Some (PyBool True)
    \<and> attr pd ''PANDAS_GE_220'' = Some (PyBool True)"
proof -
  from key_of_prerelease [OF assms(4,5)] assms(2,3)
  obtain p t where k: "Version_key v = (0, [3], p, t)" and p: "p < Infinity"
    by auto
  have lt: "Version_lt v (final_release [3, 0, 0])"
    using p by (simp add: Version_lt_def key_final_release k)
  have ge: "Version_ge v (final_release [2, 2, 0])"
    by (simp add: Version_ge_def key_final_release k)
  from lt ge show ?thesis by (simp add: attr_loaded [OF assms(1)])
qed

theorem prerelease_of_3_0_0_witness:
  "parse ''3.0.0.dev0'' =
     Inr \<lparr>epoch = 0, release = [3, 0, 0], dev = Some (''dev'', 0), pre = None, post = None,
          local_segment = None\<rparr>
   \<and> attr \<lparr>pd_version = ''3.0.0.dev0''\<rparr> ''PANDAS_LT_300'' = Some (PyBool True)
   \<and> attr \<lparr>pd_version = ''3.0.0.dev0''\<rparr> ''PANDAS_GE_220'' = Some (PyBool True)
   \<and> parse ''3.0.0rc1.post1'' =
     Inr \<lparr>epoch = 0, release = [3, 0, 0], dev = None, pre = Some (''rc'', 1),
          post = Some (''post'', 1), local_segment = None\<rparr>
   \<and> attr \<lparr>pd_version = ''3.0.0rc1.post1''\<rparr> ''PANDAS_LT_300'' = Some (PyBool True)
   \<and> attr \<lparr>pd_version = ''3.0.0rc1.post1''\<rparr> ''PANDAS_GE_220'' = Some (PyBool True)"
proof -
  let ?v = "\<lparr>epoch = 0, release = [3, 0, 0], dev = Some (''dev'', 0), pre = None, post = None,
          local_segment = None\<rparr>"
  let ?w = "\<lparr>epoch = 0, release = [3, 0, 0], dev = None, pre = Some (''rc'', 1),
          post = Some (''post'', 1), local_segment = None\<rparr>"
  have v1: "parse (pd_version \<lparr>pd_version = ''3.0.0.dev0''\<rparr>) = Inr ?v"
    by (simp add: parse_3_0_0_dev0)
  have v2: "epoch ?v = 0" by simp
  have v3: "rev (dropWhile (\<lambda>x. x = 0) (rev (release ?v))) = [3]" by simp
  have v4: "is_prerelease ?v" by (simp add: is_prerelease_def)
  have v5: "pre ?v \<noteq> None \<or> post ?v = None" by simp
  have w1: "parse (pd_version \<lparr>pd_version = ''3.0.0rc1.post1''\<rparr>) = Inr ?w"
    by (simp add: parse_3_0_0_rc1_post1)
  have w2: "epoch ?w = 0" by simp
  have w3: "rev (dropWhile (\<lambda>x. x = 0) (rev (release ?w))) = [3]" by simp
  have w4: "is_prerelease ?w" by (simp add: is_prerelease_def)
  have w5: "pre ?w \<noteq> None \<or> post ?w = None" by simp
  from prerelease_of_3_0_0 [OF v1 v2 v3 v4 v5] prerelease_of_3_0_0 [OF w1 w2 w3 w4 w5]
  show ?thesis by (simp add: parse_3_0_0_dev0 parse_3_0_0_rc1_post1)
qed

text \<open>
  C9. If the installed version equals \<^verbatim>\<open>PANDAS_CURRENT_SUPPORTED_VERSION\<close> (Python's
  \<^verbatim>\<open>==\<close> on \<^verbatim>\<open>Version\<close> objects), then \<^verbatim>\<open>PANDAS_GE_210\<close>, \<^verbatim>\<open>PANDAS_GE_220\<close> and
  \<^verbatim>\<open>PANDAS_LT_300\<close> are all \<^verbatim>\<open>True\<close>.
\<close>

theorem supported_version_passes_every_flag:
  assumes "attr pd ''PANDAS_VERSION'' = Some (PyVersion v)"
    and "attr pd ''PANDAS_CURRENT_SUPPORTED_VERSION'' = Some (PyVersion w)"
    and "Version_eq v w"
  shows "attr pd ''PANDAS_GE_210'' = Some (PyBool True)
    \<and> attr pd ''PANDAS_GE_220'' = Some (PyBool True)
    \<and> attr pd ''PANDAS_LT_300'' = Some (PyBool True)"
proof (cases "parse (pd_version pd)")
  case (Inl e)
  with assms(1) show ?thesis by (simp add: attr_failed)
next
  case (Inr u)
  with assms(1,2) have "u = v" and "w = final_release [2, 2, 3]"
    by (simp_all add: attr_loaded)
  with assms(3) have k: "Version_key u = Version_key (final_release [2, 2, 3])"
    by (simp add: Version_eq_def)
  have "Version_ge u (final_release [2, 1, 0])"
    and "Version_ge u (final_release [2, 2, 0])"
    and "Version_lt u (final_release [3, 0, 0])"
    unfolding Version_ge_def Version_lt_def k by (simp_all add: key_final_release)
  then show ?thesis by (simp add: attr_loaded [OF Inr])
qed

theorem supported_version_passes_every_flag_witness:
  "attr \<lparr>pd_version = ''2.2.3''\<rparr> ''PANDAS_VERSION'' = Some (PyVersion (final_release [2, 2, 3]))
   \<and> attr \<lparr>pd_version = ''2.2.3''\<rparr> ''PANDAS_CURRENT_SUPPORTED_VERSION''
       = Some (PyVersion (final_release [2, 2, 3]))
   \<and> Version_eq (final_release [2, 2, 3]) (final_release [2, 2, 3])
   \<and> attr \<lparr>pd_version = ''2.2.3''\<rparr> ''PANDAS_GE_210'' = Some (PyBool True)
   \<and> attr \<lparr>pd_version = ''2.2.3''\<rparr> ''PANDAS_GE_220'' = Some (PyBool True)
   \<and> attr \<lparr>pd_version = ''2.2.3''\<rparr> ''PANDAS_LT_300'' = Some (PyBool True)"
proof -
  have p: "parse (pd_version \<lparr>pd_version = ''2.2.3''\<rparr>) = Inr (final_release [2, 2, 3])"
    by (simp add: parse_2_2_3)
  have 1: "attr \<lparr>pd_version = ''2.2.3''\<rparr> ''PANDAS_VERSION''
             = Some (PyVersion (final_release [2, 2, 3]))"
    by (rule attr_loaded(5) [OF p])
  have 2: "attr \<lparr>pd_version = ''2.2.3''\<rparr> ''PANDAS_CURRENT_SUPPORTED_VERSION''
             = Some (PyVersion (final_release [2, 2, 3]))"
    by (rule attr_loaded(4) [OF p])
  have 3: "Version_eq (final_release [2, 2, 3]) (final_release [2, 2, 3])"
    by (simp add: Version_eq_def)
  from 1 2 3 supported_version_passes_every_flag [OF 1 2 3] show ?thesis by simp
qed

end
